theory Spec2Isabelle
  imports Complex_Main
begin

section \<open>Shared data model (services/socket.ts)\<close>

text \<open>
  The interfaces of \<^verbatim>\<open>services/socket.ts\<close> as records. Field names follow the
  source; a suffix is added where the source name is a HOL constant or an Isar keyword
  (\<^verbatim>\<open>id\<close>, \<^verbatim>\<open>from\<close>, \<^verbatim>\<open>to\<close>, \<^verbatim>\<open>type\<close>) or is used by two interfaces.
  Optional fields are options. Timestamps are JavaScript numbers that the code only
  stores and passes on; they are integers here.
\<close>

datatype SocketEvent =
    CONNECT | DISCONNECT | CONNECT_ERROR
  | AGENT_UPDATE | AGENT_MESSAGE | AGENT_THINKING | AGENT_HANDOVER
  | EXECUTION_STARTED | EXECUTION_COMPLETED | EXECUTION_ERROR | SYSTEM_MESSAGE

datatype AgentStatus = IDLE | THINKING | SPEAKING | LISTENING

record Agent =
  idA :: string
  name :: string
  role :: string
  status :: AgentStatus
  color :: string
  llm_type :: "string option"
  last_updated :: "int option"

datatype MessageType = thinking | message | system | error

record AgentMessage =
  idM :: string
  agent_id :: string
  content :: string
  timestampM :: int
  typeM :: MessageType

record AgentHandover =
  fromH :: string
  toH :: string
  messageH :: "string option"
  timestampH :: int

datatype ExecutionState = started | completed | failed

record ExecutionStatus =
  idE :: string
  statusE :: ExecutionState
  timestampE :: int
  errorE :: "string option"

section \<open>Exceptions as values\<close>

text \<open>
  A computation over a state either returns or throws; a throw keeps the state reached
  when it happened, because the mutations made before it are not undone.
  \<open>forEach\<close> is \<^verbatim>\<open>Array.prototype.forEach\<close> / \<^verbatim>\<open>Set.prototype.forEach\<close>: a
  callback that throws ends the iteration and the exception leaves \<open>forEach\<close>.
  \<open>tryCatch\<close> is \<^verbatim>\<open>try { body } catch (error) { handler }\<close>.
\<close>

datatype 's completion = Returned 's | Thrown string 's

definition andThen :: "('s \<Rightarrow> 's completion) \<Rightarrow> ('s \<Rightarrow> 's completion) \<Rightarrow> 's \<Rightarrow> 's completion" where
  "andThen f g s = (case f s of Returned s' \<Rightarrow> g s' | Thrown e s' \<Rightarrow> Thrown e s')"

definition tryCatch :: "('s \<Rightarrow> 's completion) \<Rightarrow> (string \<Rightarrow> 's \<Rightarrow> 's completion) \<Rightarrow> 's \<Rightarrow> 's completion" where
  "tryCatch body handler s = (case body s of Returned s' \<Rightarrow> Returned s' | Thrown e s' \<Rightarrow> handler e s')"

fun forEach :: "'a list \<Rightarrow> ('a \<Rightarrow> 's \<Rightarrow> 's completion) \<Rightarrow> 's \<Rightarrow> 's completion" where
  "forEach [] f s = Returned s"
| "forEach (v # vs) f s = (case f v s of Returned s' \<Rightarrow> forEach vs f s' | Thrown e s' \<Rightarrow> Thrown e s')"

section \<open>State Projector (the AgentNetwork component)\<close>

text \<open>
  The component's \<^verbatim>\<open>useState\<close> cells are the fields of one record; \<open>console\<close>
  collects what the component writes with \<^verbatim>\<open>console.log\<close> and
  \<^verbatim>\<open>console.error\<close>. Every handler is a reducer from the previous state to the next,
  as the functional \<^verbatim>\<open>setX(prev => ...)\<close> updates of the source are.
\<close>

record AgentNetwork =
  agents :: "Agent list"
  connections :: "AgentHandover list"
  activeAgent :: "string option"
  messages :: "AgentMessage list"
  isConnected :: bool
  console :: "string list"

definition initialState :: AgentNetwork where
  "initialState = \<lparr>agents = [], connections = [], activeAgent = None, messages = [],
     isConnected = False, console = []\<rparr>"

text \<open>\<^verbatim>\<open>Array.prototype.findIndex\<close>: the first index whose element satisfies the
  predicate, \<open>-1\<close> when there is none.\<close>

fun findIndex :: "('a \<Rightarrow> bool) \<Rightarrow> 'a list \<Rightarrow> int" where
  "findIndex P [] = - 1"
| "findIndex P (v # vs) =
     (if P v then 0 else (let r = findIndex P vs in if r \<ge> 0 then r + 1 else - 1))"

text \<open>The \<^verbatim>\<open>AGENT_UPDATE\<close> handler's update of \<^verbatim>\<open>agents\<close>.\<close>

definition upsertAgent :: "Agent \<Rightarrow> Agent list \<Rightarrow> Agent list" where
  "upsertAgent data prev =
     (let existing = findIndex (\<lambda>a. idA a = idA data) prev
      in if existing \<ge> 0 then prev[nat existing := data] else prev @ [data])"

text \<open>The events the component subscribes to, with their typed payloads, and the
  handler of each (lines 23-59 of the component).\<close>

datatype event =
    Connect
  | Disconnect
  | AgentUpdate Agent
  | AgentMessageEvent AgentMessage
  | AgentThinking AgentMessage
  | AgentHandoverEvent AgentHandover

fun applyEvent :: "event \<Rightarrow> AgentNetwork \<Rightarrow> AgentNetwork" where
  "applyEvent Connect s = s\<lparr>console := console s @ [''Socket connected''], isConnected := True\<rparr>"
| "applyEvent Disconnect s = s\<lparr>console := console s @ [''Socket disconnected''], isConnected := False\<rparr>"
| "applyEvent (AgentUpdate data) s = s\<lparr>agents := upsertAgent data (agents s)\<rparr>"
| "applyEvent (AgentMessageEvent data) s =
     s\<lparr>messages := messages s @ [data], activeAgent := Some (agent_id data)\<rparr>"
| "applyEvent (AgentThinking data) s =
     s\<lparr>messages := messages s @ [data], activeAgent := Some (agent_id data)\<rparr>"
| "applyEvent (AgentHandoverEvent data) s =
     s\<lparr>connections := connections s @ [data], activeAgent := Some (toH data)\<rparr>"

text \<open>Events are applied one at a time, in the order the channel delivers them.\<close>

definition applyEvents :: "event list \<Rightarrow> AgentNetwork \<Rightarrow> AgentNetwork" where
  "applyEvents evs s = fold applyEvent evs s"

text \<open>The payloads of each kind in a sequence of events, in arrival order.\<close>

fun agentUpdates :: "event list \<Rightarrow> Agent list" where
  "agentUpdates [] = []"
| "agentUpdates (AgentUpdate a # evs) = a # agentUpdates evs"
| "agentUpdates (_ # evs) = agentUpdates evs"

fun messageEvents :: "event list \<Rightarrow> AgentMessage list" where
  "messageEvents [] = []"
| "messageEvents (AgentMessageEvent m # evs) = m # messageEvents evs"
| "messageEvents (AgentThinking m # evs) = m # messageEvents evs"
| "messageEvents (_ # evs) = messageEvents evs"

fun handoverEvents :: "event list \<Rightarrow> AgentHandover list" where
  "handoverEvents [] = []"
| "handoverEvents (AgentHandoverEvent h # evs) = h # handoverEvents evs"
| "handoverEvents (_ # evs) = handoverEvents evs"

text \<open>The record a reader finds under an id, and, following the specification's words,
  the payload of the last agent-update event that carries the id.\<close>

definition agentWithId :: "string \<Rightarrow> Agent list \<Rightarrow> Agent option" where
  "agentWithId i as = find (\<lambda>a. idA a = i) as"

definition lastUpdateFor :: "string \<Rightarrow> Agent list \<Rightarrow> Agent option" where
  "lastUpdateFor i updates = find (\<lambda>a. idA a = i) (rev updates)"

text \<open>The agent an event implicates: the owner of a message, the destination of a
  handover; the other events implicate none.\<close>

fun implicated :: "event \<Rightarrow> string option" where
  "implicated (AgentMessageEvent m) = Some (agent_id m)"
| "implicated (AgentThinking m) = Some (agent_id m)"
| "implicated (AgentHandoverEvent h) = Some (toH h)"
| "implicated _ = None"

subsection \<open>Bootstrap fetch\<close>

text \<open>
  \<^verbatim>\<open>fetchData\<close> is an async function: at each \<^verbatim>\<open>await\<close> it is suspended, the
  handlers of the live events that arrive meanwhile run, and it resumes when the
  response is there. What the environment does at one \<^verbatim>\<open>await\<close> is therefore a pair:
  the events handled while the function waits, and the response. A response is
  \<open>Rejected\<close> when \<^verbatim>\<open>fetch\<close> or \<^verbatim>\<open>response.json()\<close> rejects or the read of the
  field throws; otherwise it is the field read from the parsed body, \<open>None\<close> when
  the field is missing or falsy. The agents field is an object keyed by id; it is the
  list of its properties in enumeration order, and \<^verbatim>\<open>Object.values\<close> is \<open>map snd\<close>.
\<close>

datatype 'a response = Rejected string | Body "'a option"

definition receiveAgents :: "(string \<times> Agent) list option \<Rightarrow> AgentNetwork \<Rightarrow> AgentNetwork" where
  "receiveAgents field s = (case field of None \<Rightarrow> s | Some byId \<Rightarrow> s\<lparr>agents := map snd byId\<rparr>)"

definition receiveMessages :: "AgentMessage list option \<Rightarrow> AgentNetwork \<Rightarrow> AgentNetwork" where
  "receiveMessages field s = (case field of None \<Rightarrow> s | Some ms \<Rightarrow> s\<lparr>messages := ms\<rparr>)"

definition receiveHandovers :: "AgentHandover list option \<Rightarrow> AgentNetwork \<Rightarrow> AgentNetwork" where
  "receiveHandovers field s = (case field of None \<Rightarrow> s | Some hs \<Rightarrow> s\<lparr>connections := hs\<rparr>)"

definition awaitFetch ::
  "event list \<times> 'a response \<Rightarrow> ('a option \<Rightarrow> AgentNetwork \<Rightarrow> AgentNetwork)
     \<Rightarrow> AgentNetwork \<Rightarrow> AgentNetwork completion" where
  "awaitFetch w receive s =
     (case snd w of
        Rejected e \<Rightarrow> Thrown e (applyEvents (fst w) s)
      | Body field \<Rightarrow> Returned (receive field (applyEvents (fst w) s)))"

definition logFetchError :: "string \<Rightarrow> AgentNetwork \<Rightarrow> AgentNetwork" where
  "logFetchError e s = s\<lparr>console := console s @ [''Error fetching initial data: '' @ e]\<rparr>"

definition fetchData ::
  "event list \<times> (string \<times> Agent) list response \<Rightarrow> event list \<times> AgentMessage list response
     \<Rightarrow> event list \<times> AgentHandover list response \<Rightarrow> AgentNetwork \<Rightarrow> AgentNetwork completion" where
  "fetchData w1 w2 w3 =
     tryCatch
       (andThen (awaitFetch w1 receiveAgents)
         (andThen (awaitFetch w2 receiveMessages) (awaitFetch w3 receiveHandovers)))
       (\<lambda>e s. Returned (logFetchError e s))"

text \<open>The effect that starts the bootstrap (lines 102-104).\<close>

definition bootstrap ::
  "event list \<times> (string \<times> Agent) list response \<Rightarrow> event list \<times> AgentMessage list response
     \<Rightarrow> event list \<times> AgentHandover list response \<Rightarrow> AgentNetwork \<Rightarrow> AgentNetwork completion" where
  "bootstrap w1 w2 w3 s = (if isConnected s then fetchData w1 w2 w3 s else Returned s)"

text \<open>The state a computation ends in, whether it returned or threw.\<close>

fun finalState :: "'s completion \<Rightarrow> 's" where
  "finalState (Returned s) = s"
| "finalState (Thrown e s) = s"

definition agentA :: Agent where
  "agentA = \<lparr>idA = ''A'', name = ''Alice'', role = ''Architect'', status = IDLE,
     color = ''#3b82f6'', llm_type = None, last_updated = None\<rparr>"

section \<open>Layout Projector (the AgentVisualization component)\<close>

text \<open>
  JavaScript numbers are reals here: the claims are about which formula the code
  evaluates, not about rounding. \<open>svg\<close> is the client size of the element behind
  \<^verbatim>\<open>svgRef\<close>, \<open>None\<close> while the ref is still null; \<^verbatim>\<open>clientWidth\<close> and
  \<^verbatim>\<open>clientHeight\<close> are non-negative integers, and \<^verbatim>\<open>|| 600\<close> and \<^verbatim>\<open>|| 400\<close>
  replace a missing or zero value. The props \<^verbatim>\<open>agents\<close>, \<^verbatim>\<open>connections\<close> and
  \<^verbatim>\<open>activeAgent\<close> are the parameters \<open>agentList\<close>, \<open>handovers\<close> and \<open>active\<close>
  (the source names are the fields of the State Projector's record). The result of
  \<open>calculatePositions\<close> is the map from ids to the positions assigned under them.
\<close>

record Position =
  posX :: real
  posY :: real

definition viewportWidth :: "(nat \<times> nat) option \<Rightarrow> real" where
  "viewportWidth svg = (case svg of None \<Rightarrow> 600 | Some (w, h) \<Rightarrow> if w = 0 then 600 else real w)"

definition viewportHeight :: "(nat \<times> nat) option \<Rightarrow> real" where
  "viewportHeight svg = (case svg of None \<Rightarrow> 400 | Some (w, h) \<Rightarrow> if h = 0 then 400 else real h)"

text \<open>\<^verbatim>\<open>forEach((value, index) => ...)\<close> with a callback that does not throw.\<close>

fun forEachIndexed :: "('a \<Rightarrow> nat \<Rightarrow> 's \<Rightarrow> 's) \<Rightarrow> 'a list \<Rightarrow> nat \<Rightarrow> 's \<Rightarrow> 's" where
  "forEachIndexed f [] i s = s"
| "forEachIndexed f (v # vs) i s = forEachIndexed f vs (Suc i) (f v i s)"

definition calculatePositions :: "(nat \<times> nat) option \<Rightarrow> Agent list \<Rightarrow> (string \<rightharpoonup> Position)" where
  "calculatePositions svg agentList =
     (let width = viewportWidth svg;
          height = viewportHeight svg;
          centerX = width / 2;
          centerY = height / 2;
          radius = min width height * 0.35
      in forEachIndexed
           (\<lambda>agent i positions.
              let angle = (real i / real (length agentList)) * 2 * pi
              in positions(idA agent \<mapsto>
                   \<lparr>posX = centerX + radius * cos angle, posY = centerY + radius * sin angle\<rparr>))
           agentList 0 Map.empty)"

text \<open>
  \<^verbatim>\<open>renderConnections\<close> reads \<^verbatim>\<open>positions[connection.from]\<close> and
  \<^verbatim>\<open>positions[connection.to]\<close>. \<^verbatim>\<open>positions\<close> is created by the object literal
  \<^verbatim>\<open>{}\<close>, so a read that finds no own property goes on along the prototype chain.
  The map returned by \<open>calculatePositions\<close> holds what the assignments
  \<^verbatim>\<open>positions[agent.id] = ...\<close> left: an own property per id, and, for the id
  \<^verbatim>\<open>__proto__\<close>, the position object that the assignment made the prototype of
  \<^verbatim>\<open>positions\<close> (the read of \<^verbatim>\<open>__proto__\<close> returns it). At the end of every
  chain stands \<^verbatim>\<open>Object.prototype\<close>, whose members \<open>objectPrototypeMembers\<close>
  lists: functions, and under \<^verbatim>\<open>__proto__\<close> the prototype object itself.

  The values such a read and the arithmetic on it can yield are the type \<open>jsValue\<close>:
  \<open>Inherited\<close> is a member of \<^verbatim>\<open>Object.prototype\<close>, by name.
\<close>

datatype jsValue =
    Undefined
  | Number real
  | NaN
  | PositionObject Position
  | Inherited string

definition objectPrototypeMembers :: "string list" where
  "objectPrototypeMembers =
     [''constructor'', ''hasOwnProperty'', ''isPrototypeOf'', ''propertyIsEnumerable'',
      ''toLocaleString'', ''toString'', ''valueOf'', ''__defineGetter__'', ''__defineSetter__'',
      ''__lookupGetter__'', ''__lookupSetter__'', ''__proto__'']"

definition fromObjectPrototype :: "string \<Rightarrow> jsValue" where
  "fromObjectPrototype key = (if key \<in> set objectPrototypeMembers then Inherited key else Undefined)"

text \<open>The read \<^verbatim>\<open>positions[key]\<close>: the own property; else, when an assignment to
  \<^verbatim>\<open>__proto__\<close> made a position object the prototype, that object's \<^verbatim>\<open>x\<close> or
  \<^verbatim>\<open>y\<close>; else the member of \<^verbatim>\<open>Object.prototype\<close>, if there is one.\<close>

definition getProperty :: "(string \<rightharpoonup> Position) \<Rightarrow> string \<Rightarrow> jsValue" where
  "getProperty positions key =
     (case positions key of
        Some p \<Rightarrow> PositionObject p
      | None \<Rightarrow>
         (case positions ''__proto__'' of
            Some proto \<Rightarrow>
              if key = ''x'' then Number (posX proto)
              else if key = ''y'' then Number (posY proto)
              else fromObjectPrototype key
          | None \<Rightarrow> fromObjectPrototype key))"

text \<open>What \<^verbatim>\<open>!v\<close> tests, the reads \<^verbatim>\<open>v.x\<close> and \<^verbatim>\<open>v.y\<close> (neither a function
  nor a number nor \<^verbatim>\<open>Object.prototype\<close> has such a property), and the arithmetic
  of the source on their results: an operand that is \<^verbatim>\<open>undefined\<close> or \<^verbatim>\<open>NaN\<close>
  makes the result \<^verbatim>\<open>NaN\<close>. The only division of the source is by the literal 2.\<close>

fun truthy :: "jsValue \<Rightarrow> bool" where
  "truthy Undefined = False"
| "truthy NaN = False"
| "truthy (Number r) = (r \<noteq> 0)"
| "truthy (PositionObject p) = True"
| "truthy (Inherited member) = True"

fun getX :: "jsValue \<Rightarrow> jsValue" where
  "getX (PositionObject p) = Number (posX p)"
| "getX v = Undefined"

fun getY :: "jsValue \<Rightarrow> jsValue" where
  "getY (PositionObject p) = Number (posY p)"
| "getY v = Undefined"

fun arith :: "(real \<Rightarrow> real \<Rightarrow> real) \<Rightarrow> jsValue \<Rightarrow> jsValue \<Rightarrow> jsValue" where
  "arith f (Number a) (Number b) = Number (f a b)"
| "arith f v w = NaN"

fun negate :: "jsValue \<Rightarrow> jsValue" where
  "negate (Number a) = Number (- a)"
| "negate v = NaN"

text \<open>
  What \<^verbatim>\<open>renderConnections\<close> returns for one handover: \<open>None\<close> is the source's
  \<^verbatim>\<open>null\<close>, and a connector holds the geometry and attributes of the \<^verbatim>\<open><g>\<close>
  element: the coordinates written into the quadratic path (start, control point, end),
  the gradient colours, whether the animated dot is drawn, and the message with its
  anchor when the handover has a non-empty one.
\<close>

record Connector =
  index :: nat
  pathStart :: "jsValue \<times> jsValue"
  pathControl :: "jsValue \<times> jsValue"
  pathEnd :: "jsValue \<times> jsValue"
  gradientStart :: string
  gradientEnd :: string
  animatedDot :: bool
  messageText :: "((jsValue \<times> jsValue) \<times> string) option"

definition colorOr :: "Agent option \<Rightarrow> string \<Rightarrow> string" where
  "colorOr agent fallback =
     (case agent of None \<Rightarrow> fallback | Some a \<Rightarrow> if color a = [] then fallback else color a)"

definition renderConnection ::
  "(string \<rightharpoonup> Position) \<Rightarrow> Agent list \<Rightarrow> string option \<Rightarrow> AgentHandover \<Rightarrow> nat
     \<Rightarrow> Connector option" where
  "renderConnection positions agentList active connection i =
     (let fromPos = getProperty positions (fromH connection);
          toPos = getProperty positions (toH connection)
      in if \<not> truthy fromPos \<or> \<not> truthy toPos then None
         else
           (let midX = arith (/) (arith (+) (getX fromPos) (getX toPos)) (Number 2);
                midY = arith (/) (arith (+) (getY fromPos) (getY toPos)) (Number 2);
                dx = arith (-) (getX toPos) (getX fromPos);
                dy = arith (-) (getY toPos) (getY fromPos);
                normalX = arith (*) (negate dy) (Number 0.3);
                normalY = arith (*) dx (Number 0.3);
                controlX = arith (+) midX normalX;
                controlY = arith (+) midY normalY;
                textX = arith (+) midX (arith (*) normalX (Number 0.7));
                textY = arith (+) midY (arith (*) normalY (Number 0.7));
                fromAgent = find (\<lambda>a. idA a = fromH connection) agentList;
                toAgent = find (\<lambda>a. idA a = toH connection) agentList
            in Some \<lparr>index = i,
                 pathStart = (getX fromPos, getY fromPos),
                 pathControl = (controlX, controlY),
                 pathEnd = (getX toPos, getY toPos),
                 gradientStart = colorOr fromAgent ''#3b82f6'',
                 gradientEnd = colorOr toAgent ''#ef4444'',
                 animatedDot = (Some (fromH connection) = active),
                 messageText =
                   (case messageH connection of
                      None \<Rightarrow> None
                    | Some m \<Rightarrow> if m = [] then None else Some ((textX, textY), m))\<rparr>))"

text \<open>\<^verbatim>\<open>connections.map((connection, index) => ...)\<close> over a given position map, and
  \<^verbatim>\<open>renderConnections\<close> itself, which computes the position map first.\<close>

definition renderConnectionsWith ::
  "(string \<rightharpoonup> Position) \<Rightarrow> Agent list \<Rightarrow> string option \<Rightarrow> AgentHandover list
     \<Rightarrow> Connector option list" where
  "renderConnectionsWith positions agentList active handovers =
     map (\<lambda>(connection, i). renderConnection positions agentList active connection i)
       (zip handovers [0..<length handovers])"

definition renderConnections ::
  "(nat \<times> nat) option \<Rightarrow> Agent list \<Rightarrow> AgentHandover list \<Rightarrow> string option
     \<Rightarrow> Connector option list" where
  "renderConnections svg agentList handovers active =
     renderConnectionsWith (calculatePositions svg agentList) agentList active handovers"

text \<open>Sample data.\<close>

definition agentB :: Agent where
  "agentB = \<lparr>idA = ''B'', name = ''Bob'', role = ''Engineer'', status = THINKING,
     color = ''#ef4444'', llm_type = Some ''openai'', last_updated = Some 1\<rparr>"

definition agentC :: Agent where
  "agentC = \<lparr>idA = ''C'', name = ''Carol'', role = ''QA Engineer'', status = LISTENING,
     color = [], llm_type = None, last_updated = None\<rparr>"

definition handoverAZ :: AgentHandover where
  "handoverAZ = \<lparr>fromH = ''A'', toH = ''Z'', messageH = Some ''over to you'', timestampH = 7\<rparr>"

definition handoverAB :: AgentHandover where
  "handoverAB = \<lparr>fromH = ''A'', toH = ''B'', messageH = None, timestampH = 8\<rparr>"

definition handoverFromConstructor :: AgentHandover where
  "handoverFromConstructor =
     \<lparr>fromH = ''constructor'', toH = ''A'', messageH = Some ''over to you'', timestampH = 9\<rparr>"

section \<open>Event Channel (the SocketService class)\<close>

text \<open>
  The fields of the class are the first seven fields of the record. Two more fields
  hold the environment the class acts on: \<open>effects\<close> is the trace of what it does
  to the outside (calls of \<^verbatim>\<open>io\<close>, of the transport socket's methods, of
  \<^verbatim>\<open>setTimeout\<close>, of the console, and of subscriber callbacks), and \<open>world\<close> is
  the state the subscriber callbacks read and write. \<open>socket\<close> is \<open>None\<close> for
  \<^verbatim>\<open>null\<close> and otherwise holds the options the socket was created with. A callback is
  held by reference: \<open>listeners\<close> maps an event to the references registered for it,
  in insertion order and without repetition, as a \<^verbatim>\<open>Set\<close> iterates them; the
  parameter \<open>impl\<close> of the functions below gives the function behind each reference.
  A callback returns or throws, and acts on \<open>world\<close> only: it does not call back
  into the service.
\<close>

record SocketOptions =
  reconnection :: bool
  reconnectionAttempts :: nat
  reconnectionDelay :: nat
  reconnectionDelayMax :: nat
  timeout :: nat

datatype payload =
    Null
  | Text string
  | AgentData Agent
  | MessageData AgentMessage
  | HandoverData AgentHandover
  | ExecutionData ExecutionStatus

datatype logLine =
    LogSocketConnected
  | LogSocketDisconnected string
  | ErrorSocketConnection string
  | ErrorMaxReconnectionAttempts
  | LogAttemptingReconnect nat nat
  | ErrorInListener SocketEvent string
  | WarnNotConnected string

datatype effect =
    Console logLine
  | IoOpen string SocketOptions
  | TransportDisconnect
  | TransportConnect
  | TransportEmit string payload
  | SetTimeout real
  | Called SocketEvent nat payload

record 'w SocketService =
  socket :: "SocketOptions option"
  reconnectAttempts :: nat
  maxReconnectAttempts :: nat
  reconnectDelay :: nat
  listeners :: "SocketEvent \<Rightarrow> nat list option"
  connected :: bool
  url :: string
  effects :: "effect list"
  world :: 'w

type_synonym 'w callbacks = "nat \<Rightarrow> payload \<Rightarrow> 'w \<Rightarrow> 'w completion"

text \<open>The constructor; \<open>location\<close> is the page's protocol and host.\<close>

definition newSocketService :: "string \<Rightarrow> string \<Rightarrow> 'w \<Rightarrow> 'w SocketService" where
  "newSocketService givenUrl location w =
     \<lparr>socket = None, reconnectAttempts = 0, maxReconnectAttempts = 5, reconnectDelay = 2000,
      listeners = (\<lambda>event. None), connected = False,
      url = (if givenUrl = [] then location else givenUrl), effects = [], world = w\<rparr>"

definition logLine :: "logLine \<Rightarrow> 'w SocketService \<Rightarrow> 'w SocketService" where
  "logLine l s = s\<lparr>effects := effects s @ [Console l]\<rparr>"

text \<open>
  \<^verbatim>\<open>connect\<close> returns at once when a socket exists; otherwise it creates one. The
  handlers it registers on the new socket are \<open>onSocketEvent\<close> below.
\<close>

definition connect :: "'w SocketService \<Rightarrow> 'w SocketService" where
  "connect s =
     (case socket s of
        Some existing \<Rightarrow> s
      | None \<Rightarrow>
          (let options = \<lparr>reconnection = True, reconnectionAttempts = maxReconnectAttempts s,
                 reconnectionDelay = reconnectDelay s, reconnectionDelayMax = 10000,
                 timeout = 20000\<rparr>
           in s\<lparr>socket := Some options, effects := effects s @ [IoOpen (url s) options]\<rparr>))"

definition disconnect :: "'w SocketService \<Rightarrow> 'w SocketService" where
  "disconnect s =
     (case socket s of
        Some existing \<Rightarrow>
          s\<lparr>effects := effects s @ [TransportDisconnect], socket := None, connected := False\<rparr>
      | None \<Rightarrow> s)"

definition reconnect :: "'w SocketService \<Rightarrow> 'w SocketService" where
  "reconnect s =
     (if socket s = None \<or> connected s then s
      else s\<lparr>effects := effects s
             @ [SetTimeout (real (reconnectDelay s) * (3 / 2) ^ reconnectAttempts s)]\<rparr>)"

text \<open>The callback \<^verbatim>\<open>reconnect\<close> hands to \<^verbatim>\<open>setTimeout\<close>, run when the timer fires.\<close>

definition reconnectTimerFired :: "'w SocketService \<Rightarrow> 'w SocketService" where
  "reconnectTimerFired s =
     (let s1 = logLine (LogAttemptingReconnect (reconnectAttempts s + 1) (maxReconnectAttempts s)) s
      in case socket s1 of
           None \<Rightarrow> s1
         | Some existing \<Rightarrow> s1\<lparr>effects := effects s1 @ [TransportConnect]\<rparr>)"

definition on :: "SocketEvent \<Rightarrow> nat \<Rightarrow> 'w SocketService \<Rightarrow> 'w SocketService" where
  "on event callback s =
     s\<lparr>listeners := (listeners s)(event \<mapsto>
          (case listeners s event of
             None \<Rightarrow> [callback]
           | Some callbacks \<Rightarrow> if callback \<in> set callbacks then callbacks else callbacks @ [callback]))\<rparr>"

definition off :: "SocketEvent \<Rightarrow> nat \<Rightarrow> 'w SocketService \<Rightarrow> 'w SocketService" where
  "off event callback s =
     (case listeners s event of
        None \<Rightarrow> s
      | Some callbacks \<Rightarrow> s\<lparr>listeners := (listeners s)(event \<mapsto> removeAll callback callbacks)\<rparr>)"

text \<open>One call \<^verbatim>\<open>callback(data)\<close>: the call is recorded, the callback acts on the
  world, and its throw, if any, is the throw of the call.\<close>

definition invoke ::
  "'w callbacks \<Rightarrow> SocketEvent \<Rightarrow> payload \<Rightarrow> nat \<Rightarrow> 'w SocketService
     \<Rightarrow> 'w SocketService completion" where
  "invoke impl event data callback s =
     (case impl callback data (world s) of
        Returned w \<Rightarrow> Returned (s\<lparr>effects := effects s @ [Called event callback data], world := w\<rparr>)
      | Thrown e w \<Rightarrow> Thrown e (s\<lparr>effects := effects s @ [Called event callback data], world := w\<rparr>))"

definition notifyListeners ::
  "'w callbacks \<Rightarrow> SocketEvent \<Rightarrow> payload \<Rightarrow> 'w SocketService \<Rightarrow> 'w SocketService completion" where
  "notifyListeners impl event data s =
     (case listeners s event of
        None \<Rightarrow> Returned s
      | Some callbacks \<Rightarrow>
          forEach callbacks
            (\<lambda>callback. tryCatch (invoke impl event data callback)
               (\<lambda>e s'. Returned (logLine (ErrorInListener event e) s')))
            s)"

definition emit :: "string \<Rightarrow> payload \<Rightarrow> 'w SocketService \<Rightarrow> 'w SocketService" where
  "emit eventName data s =
     (if socket s \<noteq> None \<and> connected s then s\<lparr>effects := effects s @ [TransportEmit eventName data]\<rparr>
      else logLine (WarnNotConnected eventName) s)"

text \<open>The handlers \<^verbatim>\<open>connect\<close> registers on the transport socket, one per event.\<close>

definition onConnect :: "'w callbacks \<Rightarrow> 'w SocketService \<Rightarrow> 'w SocketService completion" where
  "onConnect impl s =
     notifyListeners impl CONNECT Null
       ((logLine LogSocketConnected s)\<lparr>connected := True, reconnectAttempts := 0\<rparr>)"

definition onDisconnect ::
  "'w callbacks \<Rightarrow> string \<Rightarrow> 'w SocketService \<Rightarrow> 'w SocketService completion" where
  "onDisconnect impl reason s =
     andThen (notifyListeners impl DISCONNECT (Text reason))
       (\<lambda>s'. Returned (if reason = ''io server disconnect'' then reconnect s' else s'))
       ((logLine (LogSocketDisconnected reason) s)\<lparr>connected := False\<rparr>)"

definition onConnectError ::
  "'w callbacks \<Rightarrow> string \<Rightarrow> 'w SocketService \<Rightarrow> 'w SocketService completion" where
  "onConnectError impl err s =
     andThen (notifyListeners impl CONNECT_ERROR (Text err))
       (\<lambda>s1. let s2 = s1\<lparr>reconnectAttempts := reconnectAttempts s1 + 1\<rparr>
             in Returned (if reconnectAttempts s2 > maxReconnectAttempts s2
                          then disconnect (logLine ErrorMaxReconnectionAttempts s2)
                          else s2))
       (logLine (ErrorSocketConnection err) s)"

datatype transportEvent =
    TConnect
  | TDisconnect string
  | TConnectError string
  | TAgentUpdate Agent
  | TAgentMessage AgentMessage
  | TAgentThinking AgentMessage
  | TAgentHandover AgentHandover
  | TExecutionStarted ExecutionStatus
  | TExecutionCompleted ExecutionStatus
  | TExecutionError ExecutionStatus
  | TSystemMessage AgentMessage

fun onSocketEvent ::
  "'w callbacks \<Rightarrow> transportEvent \<Rightarrow> 'w SocketService \<Rightarrow> 'w SocketService completion" where
  "onSocketEvent impl TConnect s = onConnect impl s"
| "onSocketEvent impl (TDisconnect reason) s = onDisconnect impl reason s"
| "onSocketEvent impl (TConnectError err) s = onConnectError impl err s"
| "onSocketEvent impl (TAgentUpdate data) s = notifyListeners impl AGENT_UPDATE (AgentData data) s"
| "onSocketEvent impl (TAgentMessage data) s = notifyListeners impl AGENT_MESSAGE (MessageData data) s"
| "onSocketEvent impl (TAgentThinking data) s = notifyListeners impl AGENT_THINKING (MessageData data) s"
| "onSocketEvent impl (TAgentHandover data) s = notifyListeners impl AGENT_HANDOVER (HandoverData data) s"
| "onSocketEvent impl (TExecutionStarted data) s =
     notifyListeners impl EXECUTION_STARTED (ExecutionData data) s"
| "onSocketEvent impl (TExecutionCompleted data) s =
     notifyListeners impl EXECUTION_COMPLETED (ExecutionData data) s"
| "onSocketEvent impl (TExecutionError data) s =
     notifyListeners impl EXECUTION_ERROR (ExecutionData data) s"
| "onSocketEvent impl (TSystemMessage data) s = notifyListeners impl SYSTEM_MESSAGE (MessageData data) s"

text \<open>Transport events delivered one after the other; a handler's throw would end the run.\<close>

definition deliver ::
  "'w callbacks \<Rightarrow> transportEvent list \<Rightarrow> 'w SocketService \<Rightarrow> 'w SocketService completion" where
  "deliver impl events s = forEach events (onSocketEvent impl) s"

text \<open>
  The connection state of the specification, read off the fields: no socket is
  disconnected; a socket that has not (or no longer) seen the transport's connect event
  is connecting; otherwise connected.
\<close>

datatype ConnectionState = Disconnected | Connecting | Connected

definition connectionState :: "'w SocketService \<Rightarrow> ConnectionState" where
  "connectionState s =
     (case socket s of None \<Rightarrow> Disconnected
      | Some existing \<Rightarrow> if connected s then Connected else Connecting)"

text \<open>What a trace shows: the callbacks called, per event and in order, and the number
  of times the exhaustion of the attempts was reported.\<close>

fun calls :: "effect list \<Rightarrow> (SocketEvent \<times> nat) list" where
  "calls [] = []"
| "calls (Called event callback data # t) = (event, callback) # calls t"
| "calls (other # t) = calls t"

definition exhaustionReports :: "effect list \<Rightarrow> nat" where
  "exhaustionReports t = length (filter (\<lambda>e. e = Console ErrorMaxReconnectionAttempts) t)"

definition registered :: "'w SocketService \<Rightarrow> SocketEvent \<Rightarrow> nat list" where
  "registered s event = (case listeners s event of None \<Rightarrow> [] | Some callbacks \<Rightarrow> callbacks)"

text \<open>
  Following the specification's words for delivery: every registered handler is called
  in turn on the state its predecessor left; a handler that throws has the error logged
  and the next handler runs all the same.
\<close>

definition deliverTo ::
  "'w callbacks \<Rightarrow> SocketEvent \<Rightarrow> payload \<Rightarrow> nat \<Rightarrow> 'w SocketService \<Rightarrow> 'w SocketService" where
  "deliverTo impl event data callback s =
     (case impl callback data (world s) of
        Returned w \<Rightarrow> s\<lparr>effects := effects s @ [Called event callback data], world := w\<rparr>
      | Thrown e w \<Rightarrow>
          s\<lparr>effects := effects s @ [Called event callback data, Console (ErrorInListener event e)],
            world := w\<rparr>)"

fun deliverToAll ::
  "'w callbacks \<Rightarrow> SocketEvent \<Rightarrow> payload \<Rightarrow> nat list \<Rightarrow> 'w SocketService \<Rightarrow> 'w SocketService" where
  "deliverToAll impl event data [] s = s"
| "deliverToAll impl event data (callback # callbacks) s =
     deliverToAll impl event data callbacks (deliverTo impl event data callback s)"

text \<open>Sample subscribers over a counter: the callback with reference 0 throws before
  it changes anything, every other callback adds one.\<close>

definition sampleCallbacks :: "nat callbacks" where
  "sampleCallbacks callback data w = (if callback = 0 then Thrown ''boom'' w else Returned (w + 1))"

definition sampleService :: "nat SocketService" where
  "sampleService =
     on CONNECT_ERROR 2 (on CONNECT_ERROR 1 (on CONNECT_ERROR 0
       (connect (newSocketService [] ''http://localhost:3000'' 0))))"

section \<open>Verification of the State Projector\<close>

subsection \<open>Agent updates\<close>

lemma upsertAgent_Nil: "upsertAgent d [] = [d]"
  by (simp add: upsertAgent_def)

lemma upsertAgent_Cons:
  "upsertAgent d (a # as) = (if idA a = idA d then d # as else a # upsertAgent d as)"
  by (simp add: upsertAgent_def Let_def nat_add_distrib)

lemma agentWithId_upsert:
  "agentWithId i (upsertAgent d as) = (if i = idA d then Some d else agentWithId i as)"
  by (induction as) (auto simp: upsertAgent_Nil upsertAgent_Cons agentWithId_def)

lemma ids_upsert: "set (map idA (upsertAgent d as)) = insert (idA d) (set (map idA as))"
  by (induction as) (auto simp: upsertAgent_Nil upsertAgent_Cons)

lemma distinct_upsert:
  "distinct (map idA as) \<Longrightarrow> distinct (map idA (upsertAgent d as))"
proof (induction as)
  case Nil
  then show ?case by (simp add: upsertAgent_Nil)
next
  case (Cons a as)
  then show ?case
    using ids_upsert [of d as] by (auto simp: upsertAgent_Cons)
qed

lemma applyEvents_snoc: "applyEvents (evs @ [e]) s = applyEvent e (applyEvents evs s)"
  by (simp add: applyEvents_def)

lemma agentUpdates_append: "agentUpdates (evs @ evs') = agentUpdates evs @ agentUpdates evs'"
  by (induction evs rule: agentUpdates.induct) auto

lemma lastUpdateFor_snoc:
  "lastUpdateFor i (us @ [u]) = (if i = idA u then Some u else lastUpdateFor i us)"
  by (auto simp: lastUpdateFor_def)

lemma agents_applyEvent:
  "agents (applyEvent e s) =
     (case agentUpdates [e] of [] \<Rightarrow> agents s | d # _ \<Rightarrow> upsertAgent d (agents s))"
  by (cases e) auto

lemma ids_upsert_order:
  "map idA (upsertAgent d as)
     = (if idA d \<in> set (map idA as) then map idA as else map idA as @ [idA d])"
  by (induction as) (auto simp: upsertAgent_Nil upsertAgent_Cons)

lemma upserts_from_empty:
  "distinct (map idA (agents (applyEvents evs initialState)))
   \<and> set (map idA (agents (applyEvents evs initialState))) = idA ` set (agentUpdates evs)
   \<and> (\<forall>i. agentWithId i (agents (applyEvents evs initialState))
          = lastUpdateFor i (agentUpdates evs))"
proof (induction evs rule: rev_induct)
  case Nil
  show ?case
    by (simp add: applyEvents_def initialState_def agentWithId_def lastUpdateFor_def)
next
  case (snoc e evs)
  show ?case
  proof (cases "agentUpdates [e]")
    case Nil
    with snoc show ?thesis
      by (simp add: applyEvents_snoc agents_applyEvent agentUpdates_append)
  next
    case (Cons d ds)
    then have one: "agentUpdates [e] = [d]"
      by (cases e) auto
    with snoc show ?thesis
      by (simp add: applyEvents_snoc agents_applyEvent agentUpdates_append
          distinct_upsert ids_upsert agentWithId_upsert lastUpdateFor_snoc del: set_map)
  qed
qed

lemma ids_in_order_of_first_update:
  "map idA (agents (applyEvents evs initialState))
     = rev (remdups (rev (map idA (agentUpdates evs))))"
proof (induction evs rule: rev_induct)
  case Nil
  show ?case by (simp add: applyEvents_def initialState_def)
next
  case (snoc e evs)
  show ?case
  proof (cases "agentUpdates [e]")
    case Nil
    with snoc show ?thesis
      by (simp add: applyEvents_snoc agents_applyEvent agentUpdates_append)
  next
    case (Cons d ds)
    then have one: "agentUpdates [e] = [d]"
      by (cases e) auto
    have "set (map idA (agents (applyEvents evs initialState))) = set (map idA (agentUpdates evs))"
      using snoc by simp
    with snoc one show ?thesis
      by (simp add: applyEvents_snoc agents_applyEvent agentUpdates_append ids_upsert_order
          del: set_map)
  qed
qed

text \<open>
  Claim C1. Whatever sequence of events is applied to the initial (empty) state, the
  agent list has pairwise distinct ids, its ids are exactly the ids carried by the
  agent-update events, and the record found under each id is the whole payload of the
  last agent-update event with that id: an existing id has its record replaced, and no
  field of an older record survives. A new id is appended: the ids stand in the order in
  which the update events first carried them.
\<close>

theorem agent_update_upsert_wins_last:
  "distinct (map idA (agents (applyEvents evs initialState)))
   \<and> set (map idA (agents (applyEvents evs initialState))) = idA ` set (agentUpdates evs)
   \<and> (\<forall>i. agentWithId i (agents (applyEvents evs initialState))
          = lastUpdateFor i (agentUpdates evs))
   \<and> map idA (agents (applyEvents evs initialState))
        = rev (remdups (rev (map idA (agentUpdates evs))))"
  using upserts_from_empty [of evs] ids_in_order_of_first_update [of evs]
  by blast

theorem agent_update_upsert_wins_last_witness:
  "agents (applyEvents [AgentUpdate agentA, AgentUpdate agentB,
       AgentUpdate (agentA\<lparr>status := SPEAKING, llm_type := Some ''gemini''\<rparr>)] initialState)
     = [agentA\<lparr>status := SPEAKING, llm_type := Some ''gemini''\<rparr>, agentB]
   \<and> agentWithId ''A'' (agents (applyEvents [AgentUpdate agentA, AgentUpdate agentB,
       AgentUpdate (agentA\<lparr>status := SPEAKING, llm_type := Some ''gemini''\<rparr>)] initialState))
     = Some (agentA\<lparr>status := SPEAKING, llm_type := Some ''gemini''\<rparr>)"
  using agent_update_upsert_wins_last [of "[AgentUpdate agentA, AgentUpdate agentB,
       AgentUpdate (agentA\<lparr>status := SPEAKING, llm_type := Some ''gemini''\<rparr>)]"]
  by (simp add: applyEvents_def initialState_def upsertAgent_def agentWithId_def
      agentA_def agentB_def)

subsection \<open>Message and handover logs\<close>

lemma messageEvents_append:
  "messageEvents (evs @ evs') = messageEvents evs @ messageEvents evs'"
  by (induction evs rule: messageEvents.induct) auto

lemma handoverEvents_append:
  "handoverEvents (evs @ evs') = handoverEvents evs @ handoverEvents evs'"
  by (induction evs rule: handoverEvents.induct) auto

lemma messages_applyEvent: "messages (applyEvent e s) = messages s @ messageEvents [e]"
  by (cases e) simp_all

lemma connections_applyEvent: "connections (applyEvent e s) = connections s @ handoverEvents [e]"
  by (cases e) simp_all

lemma logs_applyEvents:
  "messages (applyEvents evs s) = messages s @ messageEvents evs
   \<and> connections (applyEvents evs s) = connections s @ handoverEvents evs"
proof (induction evs rule: rev_induct)
  case Nil
  show ?case by (simp add: applyEvents_def)
next
  case (snoc e evs)
  then show ?case
    by (simp add: applyEvents_snoc messages_applyEvent connections_applyEvent
        messageEvents_append handoverEvents_append)
qed

text \<open>
  Claim C2. Applying a sequence of events extends the message log by exactly the
  message payloads (agent-message and agent-thinking events) and the handover log by
  exactly the handover payloads, each in arrival order; from the initial state each log
  is that sequence and has its length. Nothing is compared with what the log already
  holds, so a payload delivered twice is logged twice, and a handover is appended
  whatever the agent list is, also when it is empty and the handover's ids name no
  agent.
\<close>

theorem logs_append_in_arrival_order:
  "messages (applyEvents evs s) = messages s @ messageEvents evs
   \<and> connections (applyEvents evs s) = connections s @ handoverEvents evs
   \<and> messages (applyEvents evs initialState) = messageEvents evs
   \<and> connections (applyEvents evs initialState) = handoverEvents evs
   \<and> length (messages (applyEvents evs initialState)) = length (messageEvents evs)
   \<and> length (connections (applyEvents evs initialState)) = length (handoverEvents evs)
   \<and> messages (applyEvents [AgentMessageEvent m, AgentMessageEvent m] s) = messages s @ [m, m]
   \<and> connections (applyEvents [AgentHandoverEvent h, AgentHandoverEvent h] s)
        = connections s @ [h, h]
   \<and> connections (applyEvent (AgentHandoverEvent h) (s\<lparr>agents := []\<rparr>)) = connections s @ [h]"
proof -
  have init: "messages initialState = [] \<and> connections initialState = []"
    by (simp add: initialState_def)
  show ?thesis
    using logs_applyEvents [of evs s] logs_applyEvents [of evs initialState] init
    by (simp add: applyEvents_def)
qed

subsection \<open>Active agent pointer\<close>

text \<open>
  Claim C9. Whatever the pointer was, a message event (agent-message or agent-thinking)
  leaves it at the message's \<^verbatim>\<open>agent_id\<close> and a handover event leaves it at the
  handover's \<^verbatim>\<open>to\<close>; the old value plays no part in the new one, and the events that
  implicate no agent leave the pointer as it was.
\<close>

theorem active_agent_overwritten:
  "activeAgent (applyEvent (AgentMessageEvent m) s) = Some (agent_id m)
   \<and> activeAgent (applyEvent (AgentThinking m) s) = Some (agent_id m)
   \<and> activeAgent (applyEvent (AgentHandoverEvent h) s) = Some (toH h)
   \<and> activeAgent (applyEvent e s) = (case implicated e of None \<Rightarrow> activeAgent s | Some i \<Rightarrow> Some i)"
  by (cases e) simp_all

subsection \<open>Bootstrap fetch\<close>

lemma agents_applyEvents:
  "agents (applyEvents evs s) = fold upsertAgent (agentUpdates evs) (agents s)"
proof (induction evs rule: rev_induct)
  case Nil
  show ?case by (simp add: applyEvents_def)
next
  case (snoc e evs)
  then show ?case
    by (cases e) (simp_all add: applyEvents_snoc agentUpdates_append)
qed

lemma fetchData_agents_rejected:
  "fetchData (evs1, Rejected e) w2 w3 s = Returned (logFetchError e (applyEvents evs1 s))"
  by (simp add: fetchData_def tryCatch_def andThen_def awaitFetch_def)

lemma fetchData_messages_rejected:
  "fetchData (evs1, Body b1) (evs2, Rejected e) w3 s
     = Returned (logFetchError e (applyEvents evs2 (receiveAgents b1 (applyEvents evs1 s))))"
  by (simp add: fetchData_def tryCatch_def andThen_def awaitFetch_def)

lemma fetchData_handovers_rejected:
  "fetchData (evs1, Body b1) (evs2, Body b2) (evs3, Rejected e) s
     = Returned (logFetchError e (applyEvents evs3 (receiveMessages b2
         (applyEvents evs2 (receiveAgents b1 (applyEvents evs1 s))))))"
  by (simp add: fetchData_def tryCatch_def andThen_def awaitFetch_def)

lemma fetchData_all_bodies:
  "fetchData (evs1, Body b1) (evs2, Body b2) (evs3, Body b3) s
     = Returned (receiveHandovers b3 (applyEvents evs3 (receiveMessages b2
         (applyEvents evs2 (receiveAgents b1 (applyEvents evs1 s))))))"
  by (simp add: fetchData_def tryCatch_def andThen_def awaitFetch_def)

lemma fetchData_returns: "\<exists>s'. fetchData w1 w2 w3 s = Returned s'"
  by (cases w1; cases w2; cases w3)
     (auto simp: fetchData_def tryCatch_def andThen_def awaitFetch_def split: response.splits)

text \<open>
  Claim C8, as stated, fails: the three queries run one after the other inside one
  \<^verbatim>\<open>try\<close>, and each result is stored before the next query starts. Here the agents
  query succeeds and the messages query is rejected, with no live event in between:
  the bootstrap ends with the fetched agent in the agent list, which was empty before
  the bootstrap began.
\<close>

theorem bootstrap_failure_changes_snapshot:
  "agents (finalState (fetchData ([], Body (Some [(''A'', agentA)]))
       ([], Rejected ''Failed to fetch'') ([], Body None) initialState))
     \<noteq> agents initialState"
  by (simp add: fetchData_messages_rejected logFetchError_def receiveAgents_def
      applyEvents_def initialState_def)

text \<open>
  Claim C8, amended. For every state and every response of the three queries
  \<open>fetchData\<close> returns: a rejected query is caught and logged, and no exception
  leaves the function. The events that arrive while a query is awaited are applied as
  usual. The bootstrap itself leaves unchanged the parts of the snapshot whose query
  is the rejected one or comes after it, and has already replaced the parts whose query
  succeeded before: with the agents query rejected the snapshot is as it was; with the
  messages query rejected the agents are the fetched ones (when the body had them);
  with the handovers query rejected so are the messages. The last three equations are
  the runs in which no live event arrives meanwhile.
\<close>

theorem bootstrap_failure_is_caught_and_partial:
  "(\<exists>s'. fetchData w1 w2 w3 s = Returned s')
   \<and> fetchData (evs1, Rejected e) w2 w3 s = Returned (logFetchError e (applyEvents evs1 s))
   \<and> fetchData (evs1, Body b1) (evs2, Rejected e) w3 s
       = Returned (logFetchError e (applyEvents evs2 (receiveAgents b1 (applyEvents evs1 s))))
   \<and> fetchData (evs1, Body b1) (evs2, Body b2) (evs3, Rejected e) s
       = Returned (logFetchError e (applyEvents evs3 (receiveMessages b2
           (applyEvents evs2 (receiveAgents b1 (applyEvents evs1 s))))))
   \<and> fetchData ([], Rejected e) w2 w3 s
       = Returned (s\<lparr>console := console s @ [''Error fetching initial data: '' @ e]\<rparr>)
   \<and> fetchData ([], Body b1) ([], Rejected e) w3 s
       = Returned (s\<lparr>agents := (case b1 of None \<Rightarrow> agents s | Some byId \<Rightarrow> map snd byId),
                     console := console s @ [''Error fetching initial data: '' @ e]\<rparr>)
   \<and> fetchData ([], Body b1) ([], Body b2) ([], Rejected e) s
       = Returned (s\<lparr>agents := (case b1 of None \<Rightarrow> agents s | Some byId \<Rightarrow> map snd byId),
                     messages := (case b2 of None \<Rightarrow> messages s | Some ms \<Rightarrow> ms),
                     console := console s @ [''Error fetching initial data: '' @ e]\<rparr>)"
proof -
  have a: "\<exists>s'. fetchData w1 w2 w3 s = Returned s'"
    by (rule fetchData_returns)
  have b: "fetchData ([], Rejected e) w2 w3 s
       = Returned (s\<lparr>console := console s @ [''Error fetching initial data: '' @ e]\<rparr>)"
    by (simp add: fetchData_agents_rejected logFetchError_def applyEvents_def)
  have c: "fetchData ([], Body b1) ([], Rejected e) w3 s
       = Returned (s\<lparr>agents := (case b1 of None \<Rightarrow> agents s | Some byId \<Rightarrow> map snd byId),
                     console := console s @ [''Error fetching initial data: '' @ e]\<rparr>)"
    by (cases b1)
       (simp_all add: fetchData_messages_rejected logFetchError_def applyEvents_def
          receiveAgents_def)
  have d: "fetchData ([], Body b1) ([], Body b2) ([], Rejected e) s
       = Returned (s\<lparr>agents := (case b1 of None \<Rightarrow> agents s | Some byId \<Rightarrow> map snd byId),
                     messages := (case b2 of None \<Rightarrow> messages s | Some ms \<Rightarrow> ms),
                     console := console s @ [''Error fetching initial data: '' @ e]\<rparr>)"
    by (cases b1; cases b2)
       (simp_all add: fetchData_handovers_rejected logFetchError_def applyEvents_def
          receiveAgents_def receiveMessages_def)
  from a b c d show ?thesis
    by (simp add: fetchData_agents_rejected fetchData_messages_rejected
        fetchData_handovers_rejected)
qed

text \<open>
  Claim C10, as stated, fails for a live event that arrives after its part of the
  snapshot was replaced and before the bootstrap completes. Here every query succeeds
  with an empty body, and one agent update arrives while the messages query is awaited:
  the bootstrap completes with that agent in the list although the fetched agents
  mapping is empty.
\<close>

theorem live_update_during_bootstrap_is_kept:
  "agents (finalState (fetchData ([], Body (Some [])) ([AgentUpdate agentA], Body (Some []))
       ([], Body (Some [])) initialState))
     \<noteq> map snd []"
  by (simp add: fetchData_all_bodies receiveAgents_def receiveMessages_def
      receiveHandovers_def applyEvents_def initialState_def upsertAgent_Nil)

text \<open>
  Claim C10, amended. When the three queries succeed and their bodies carry the
  fields, each part of the snapshot is replaced wholesale at the moment its own result
  is stored: the final agents are the fetched ones with only the agent updates that
  arrived after that moment upserted into them, the final messages are the fetched
  history followed by the messages that arrived while the handovers query was awaited,
  and the final handovers are the fetched history. Nothing of the state before the
  bootstrap, and nothing that a live event put into a part before that part was
  replaced, appears in the result.
\<close>

theorem bootstrap_success_replaces_each_part:
  "\<exists>s'. fetchData (evs1, Body (Some byId)) (evs2, Body (Some ms)) (evs3, Body (Some hs)) s
          = Returned s'
     \<and> agents s' = fold upsertAgent (agentUpdates (evs2 @ evs3)) (map snd byId)
     \<and> messages s' = ms @ messageEvents evs3
     \<and> connections s' = hs"
  by (simp add: fetchData_all_bodies receiveAgents_def receiveMessages_def
      receiveHandovers_def agents_applyEvents logs_applyEvents agentUpdates_append)

section \<open>Verification of the Layout Projector\<close>

subsection \<open>Positions on the circle\<close>

lemma forEachIndexed_other:
  "k \<notin> idA ` set as \<Longrightarrow>
   forEachIndexed (\<lambda>agent i positions. positions(idA agent \<mapsto> P i)) as n m k = m k"
  by (induction as arbitrary: n m) auto

lemma forEachIndexed_at:
  "i < length as \<Longrightarrow> idA (as ! i) \<notin> idA ` set (drop (Suc i) as) \<Longrightarrow>
   forEachIndexed (\<lambda>agent i positions. positions(idA agent \<mapsto> P i)) as n m (idA (as ! i))
     = Some (P (n + i))"
proof (induction as arbitrary: n m i)
  case Nil
  then show ?case by simp
next
  case (Cons a as)
  show ?case
  proof (cases i)
    case 0
    with Cons.prems have "idA a \<notin> idA ` set as"
      by simp
    then have "forEachIndexed (\<lambda>agent i positions. positions(idA agent \<mapsto> P i)) as (Suc n)
        (m(idA a \<mapsto> P n)) (idA a) = (m(idA a \<mapsto> P n)) (idA a)"
      by (rule forEachIndexed_other)
    with 0 show ?thesis
      by (simp del: fun_upd_apply add: fun_upd_same)
  next
    case (Suc j)
    with Cons.prems Cons.IH [of j "Suc n"] show ?thesis
      by simp
  qed
qed

lemma dom_forEachIndexed:
  "dom (forEachIndexed (\<lambda>agent i positions. positions(idA agent \<mapsto> P i)) as n m)
     = dom m \<union> idA ` set as"
  by (induction as arbitrary: n m) auto

lemma calculatePositions_at:
  assumes "i < length agentList"
    and "idA (agentList ! i) \<notin> idA ` set (drop (Suc i) agentList)"
  shows "calculatePositions svg agentList (idA (agentList ! i))
     = Some \<lparr>posX = viewportWidth svg / 2
                + 0.35 * min (viewportWidth svg) (viewportHeight svg)
                  * cos ((real i / real (length agentList)) * 2 * pi),
             posY = viewportHeight svg / 2
                + 0.35 * min (viewportWidth svg) (viewportHeight svg)
                  * sin ((real i / real (length agentList)) * 2 * pi)\<rparr>"
  using forEachIndexed_at [OF assms, of _ 0]
  by (simp add: calculatePositions_def Let_def mult.commute)

lemma calculatePositions_empty: "calculatePositions svg [] = Map.empty"
  by (simp add: calculatePositions_def Let_def)

lemma dom_calculatePositions: "dom (calculatePositions svg agentList) = idA ` set agentList"
  by (simp add: calculatePositions_def Let_def dom_forEachIndexed)

lemma calculatePositions_None_iff:
  "(calculatePositions svg agentList k = None) = (k \<notin> idA ` set agentList)"
proof -
  have "(calculatePositions svg agentList k = None)
      = (k \<notin> dom (calculatePositions svg agentList))"
    by (simp add: domIff)
  then show ?thesis
    by (simp add: dom_calculatePositions)
qed

text \<open>
  Claim C3, as stated, fails in two ways. A measured width of zero is replaced by 600:
  for one agent in a viewport of width 0 and height 400 the claim's formula gives the
  point (0, 200), and the code gives (440, 200). And the position map is keyed by id:
  of two agents with the same id in a 600 by 400 viewport, the one at index 0 is not at
  the angle 0 of the claim but where the one at index 1 is, at the angle \<open>\<pi>\<close>.
\<close>

theorem layout_zero_width_and_shared_id:
  "calculatePositions (Some (0, 400)) [agentA] (idA agentA)
     \<noteq> Some \<lparr>posX = real 0 / 2 + 0.35 * min (real 0) (real 400)
                        * cos ((real 0 / real (length [agentA])) * 2 * pi),
              posY = real 400 / 2 + 0.35 * min (real 0) (real 400)
                        * sin ((real 0 / real (length [agentA])) * 2 * pi)\<rparr>
   \<and> calculatePositions (Some (600, 400)) [agentA, agentA\<lparr>name := ''Alice 2''\<rparr>] (idA agentA)
     \<noteq> Some \<lparr>posX = real 600 / 2 + 0.35 * min (real 600) (real 400)
                        * cos ((real 0 / real (length [agentA, agentA\<lparr>name := ''Alice 2''\<rparr>])) * 2 * pi),
              posY = real 400 / 2 + 0.35 * min (real 600) (real 400)
                        * sin ((real 0 / real (length [agentA, agentA\<lparr>name := ''Alice 2''\<rparr>])) * 2 * pi)\<rparr>"
  by (simp add: calculatePositions_def Let_def viewportWidth_def viewportHeight_def)

text \<open>
  Claim C3, amended. For a viewport measured with positive width \<open>W\<close> and height
  \<open>H\<close>, and an agent at index \<open>i\<close> of \<open>N\<close> whose id no later agent of the list
  carries (every agent, when ids are unique), the position stored under the agent's id
  is \<open>(W/2 + r cos \<theta>, H/2 + r sin \<theta>)\<close> with \<open>\<theta> = (i/N) 2\<pi>\<close> and
  \<open>r = 0.35 min W H\<close>. A width that is zero or not yet measured counts as 600 and
  such a height as 400. Three agents with distinct ids in a 600 by 400 viewport are at
  the angles \<open>0\<close>, \<open>2\<pi>/3\<close>, \<open>4\<pi>/3\<close> around (300, 200) with radius 140, and
  an empty agent list gives the empty position map.
\<close>

theorem circle_layout:
  "(i < length agentList \<and> idA (agentList ! i) \<notin> idA ` set (drop (Suc i) agentList)
      \<and> 0 < W \<and> 0 < H
      \<longrightarrow> calculatePositions (Some (W, H)) agentList (idA (agentList ! i))
         = Some \<lparr>posX = real W / 2 + 0.35 * min (real W) (real H)
                            * cos ((real i / real (length agentList)) * 2 * pi),
                 posY = real H / 2 + 0.35 * min (real W) (real H)
                            * sin ((real i / real (length agentList)) * 2 * pi)\<rparr>)
   \<and> calculatePositions None agentList = calculatePositions (Some (600, 400)) agentList
   \<and> calculatePositions (Some (0, H)) agentList = calculatePositions (Some (600, H)) agentList
   \<and> calculatePositions (Some (W, 0)) agentList = calculatePositions (Some (W, 400)) agentList
   \<and> (distinct [idA a, idA b, idA c]
      \<longrightarrow> calculatePositions (Some (600, 400)) [a, b, c] (idA a)
            = Some \<lparr>posX = 300 + 140 * cos 0, posY = 200 + 140 * sin 0\<rparr>
        \<and> calculatePositions (Some (600, 400)) [a, b, c] (idA b)
            = Some \<lparr>posX = 300 + 140 * cos (2 * pi / 3), posY = 200 + 140 * sin (2 * pi / 3)\<rparr>
        \<and> calculatePositions (Some (600, 400)) [a, b, c] (idA c)
            = Some \<lparr>posX = 300 + 140 * cos (4 * pi / 3), posY = 200 + 140 * sin (4 * pi / 3)\<rparr>)
   \<and> calculatePositions svg [] = Map.empty"
proof -
  have general: "calculatePositions (Some (W, H)) agentList (idA (agentList ! i))
         = Some \<lparr>posX = real W / 2 + 0.35 * min (real W) (real H)
                            * cos ((real i / real (length agentList)) * 2 * pi),
                 posY = real H / 2 + 0.35 * min (real W) (real H)
                            * sin ((real i / real (length agentList)) * 2 * pi)\<rparr>"
    if "i < length agentList" "idA (agentList ! i) \<notin> idA ` set (drop (Suc i) agentList)"
      "0 < W" "0 < H"
    using calculatePositions_at [OF that(1,2), of "Some (W, H)"] that(3,4)
    by (simp add: viewportWidth_def viewportHeight_def)
  have defaults:
    "calculatePositions None agentList = calculatePositions (Some (600, 400)) agentList"
    "calculatePositions (Some (0, H)) agentList = calculatePositions (Some (600, H)) agentList"
    "calculatePositions (Some (W, 0)) agentList = calculatePositions (Some (W, 400)) agentList"
    by (simp_all add: calculatePositions_def viewportWidth_def viewportHeight_def)
  have three: "calculatePositions (Some (600, 400)) [a, b, c] (idA a)
            = Some \<lparr>posX = 300 + 140 * cos 0, posY = 200 + 140 * sin 0\<rparr>
        \<and> calculatePositions (Some (600, 400)) [a, b, c] (idA b)
            = Some \<lparr>posX = 300 + 140 * cos (2 * pi / 3), posY = 200 + 140 * sin (2 * pi / 3)\<rparr>
        \<and> calculatePositions (Some (600, 400)) [a, b, c] (idA c)
            = Some \<lparr>posX = 300 + 140 * cos (4 * pi / 3), posY = 200 + 140 * sin (4 * pi / 3)\<rparr>"
    if "distinct [idA a, idA b, idA c]"
    using that calculatePositions_at [of 0 "[a, b, c]" "Some (600, 400)"]
      calculatePositions_at [of 1 "[a, b, c]" "Some (600, 400)"]
      calculatePositions_at [of 2 "[a, b, c]" "Some (600, 400)"]
    by (simp add: viewportWidth_def viewportHeight_def)
  from general defaults three show ?thesis
    by (simp add: calculatePositions_empty)
qed

theorem circle_layout_witness:
  "(1::nat) < length [agentA, agentB, agentC]
   \<and> idA ([agentA, agentB, agentC] ! 1) \<notin> idA ` set (drop (Suc 1) [agentA, agentB, agentC])
   \<and> distinct [idA agentA, idA agentB, idA agentC]
   \<and> calculatePositions (Some (800, 500)) [agentA, agentB, agentC] ''B''
       = Some \<lparr>posX = 400 + 175 * cos (2 * pi / 3), posY = 250 + 175 * sin (2 * pi / 3)\<rparr>
   \<and> calculatePositions (Some (600, 400)) [agentA, agentB, agentC] ''C''
       = Some \<lparr>posX = 300 + 140 * cos (4 * pi / 3), posY = 200 + 140 * sin (4 * pi / 3)\<rparr>"
  using circle_layout [of 1 "[agentA, agentB, agentC]" 800 500 agentA agentB agentC]
  by (simp add: agentA_def agentB_def agentC_def)

subsection \<open>Connectors\<close>

lemma renderConnection_None:
  "(renderConnection positions agentList active connection i = None)
     = (\<not> truthy (getProperty positions (fromH connection))
        \<or> \<not> truthy (getProperty positions (toH connection)))"
  by (simp add: renderConnection_def Let_def)

lemma renderConnectionsWith_nth:
  "i < length handovers \<Longrightarrow>
   renderConnectionsWith positions agentList active handovers ! i
     = renderConnection positions agentList active (handovers ! i) i"
  by (simp add: renderConnectionsWith_def)

lemma renderConnectionsWith_length:
  "length (renderConnectionsWith positions agentList active handovers) = length handovers"
  by (simp add: renderConnectionsWith_def)

lemma renderConnections_length:
  "length (renderConnections svg agentList handovers active) = length handovers"
  by (simp add: renderConnections_def renderConnectionsWith_length)

lemma renderConnections_no_handovers: "renderConnections svg agentList [] active = []"
  by (simp add: renderConnections_def renderConnectionsWith_def)

text \<open>For an id that names no member of \<^verbatim>\<open>Object.prototype\<close> (and is not \<^verbatim>\<open>x\<close>
  or \<^verbatim>\<open>y\<close> read through a position object made the prototype), the read is truthy
  exactly when a position was assigned under the id.\<close>

lemma truthy_getProperty_ordinary:
  assumes "key \<notin> set objectPrototypeMembers"
    and "positions ''__proto__'' = None \<or> (key \<noteq> ''x'' \<and> key \<noteq> ''y'')"
  shows "truthy (getProperty positions key) = (positions key \<noteq> None)"
  using assms
  by (auto simp: getProperty_def fromObjectPrototype_def split: option.splits)

lemma truthy_getProperty_inherited:
  "key \<in> set objectPrototypeMembers \<Longrightarrow> truthy (getProperty positions key)"
  by (auto simp: getProperty_def fromObjectPrototype_def objectPrototypeMembers_def
      split: option.splits)

text \<open>
  The derivation has no failing operation, and it returns one entry per handover. A
  handover whose two ids are ordinary in the sense above is omitted exactly when one of
  them is the id of no agent.
\<close>

lemma connectors_for_ordinary_ids:
  assumes "i < length handovers"
    and "fromH (handovers ! i) \<notin> set objectPrototypeMembers \<union> {''x'', ''y''}"
    and "toH (handovers ! i) \<notin> set objectPrototypeMembers \<union> {''x'', ''y''}"
  shows "(renderConnections svg agentList handovers active ! i = None)
     = (fromH (handovers ! i) \<notin> idA ` set agentList \<or> toH (handovers ! i) \<notin> idA ` set agentList)"
proof -
  have "truthy (getProperty (calculatePositions svg agentList) (fromH (handovers ! i)))
      = (calculatePositions svg agentList (fromH (handovers ! i)) \<noteq> None)"
    using assms(2) by (intro truthy_getProperty_ordinary) auto
  moreover have "truthy (getProperty (calculatePositions svg agentList) (toH (handovers ! i)))
      = (calculatePositions svg agentList (toH (handovers ! i)) \<noteq> None)"
    using assms(3) by (intro truthy_getProperty_ordinary) auto
  ultimately show ?thesis
    using assms(1)
    by (simp add: renderConnections_def renderConnectionsWith_nth renderConnection_None
        calculatePositions_None_iff)
qed

lemma connectors_sample:
  "renderConnections None [agentA, agentB] [handoverAZ, handoverAB] (Some ''A'')
     = [None,
        Some \<lparr>index = 1, pathStart = (Number 440, Number 200),
          pathControl = (Number 300, Number 116), pathEnd = (Number 160, Number 200),
          gradientStart = ''#3b82f6'', gradientEnd = ''#ef4444'', animatedDot = True,
          messageText = None\<rparr>]"
  by (simp add: renderConnections_def renderConnectionsWith_def renderConnection_def
      calculatePositions_def Let_def viewportWidth_def viewportHeight_def agentA_def agentB_def
      handoverAZ_def handoverAB_def colorOr_def getProperty_def fromObjectPrototype_def
      objectPrototypeMembers_def)

text \<open>
  Claim C4 holds of the derivation for ordinary ids, as the lemmas above show, and it
  never throws; but the code does not keep the claim for every handover list. Here the
  only agent has the id \<^verbatim>\<open>A\<close> and a handover comes from the id \<^verbatim>\<open>constructor\<close>,
  which is absent from the position map. The read \<^verbatim>\<open>positions['constructor']\<close>
  finds the inherited member of \<^verbatim>\<open>Object.prototype\<close>, which is truthy, so the guard
  \<^verbatim>\<open>if (!fromPos || !toPos) return null\<close> lets the handover through: the connector
  is not omitted but drawn, with \<^verbatim>\<open>undefined\<close> start coordinates and a \<^verbatim>\<open>NaN\<close>
  control point and text anchor.
\<close>

theorem connector_drawn_for_inherited_name:
  "calculatePositions None [agentA] ''constructor'' = None
   \<and> renderConnections None [agentA] [handoverFromConstructor] None
     = [Some \<lparr>index = 0, pathStart = (Undefined, Undefined), pathControl = (NaN, NaN),
          pathEnd = (Number 440, Number 200), gradientStart = ''#3b82f6'',
          gradientEnd = ''#3b82f6'', animatedDot = False,
          messageText = Some ((NaN, NaN), ''over to you'')\<rparr>]"
  by (simp add: renderConnections_def renderConnectionsWith_def renderConnection_def
      calculatePositions_def Let_def viewportWidth_def viewportHeight_def agentA_def
      handoverFromConstructor_def colorOr_def getProperty_def fromObjectPrototype_def
      objectPrototypeMembers_def)

section \<open>Verification of the Event Channel\<close>

subsection \<open>Delivery to subscribers\<close>

lemma tryCatch_invoke:
  "tryCatch (invoke impl event data callback)
      (\<lambda>e s'. Returned (logLine (ErrorInListener event e) s')) s
     = Returned (deliverTo impl event data callback s)"
  by (cases "impl callback data (world s)")
     (simp_all add: tryCatch_def invoke_def logLine_def deliverTo_def)

lemma forEach_deliverTo:
  "forEach callbacks (\<lambda>callback a. Returned (deliverTo impl event data callback a)) s
     = Returned (deliverToAll impl event data callbacks s)"
  by (induction callbacks arbitrary: s) simp_all

lemma forEach_tryCatch_invoke:
  "forEach callbacks
      (\<lambda>callback. tryCatch (invoke impl event data callback)
         (\<lambda>e s'. Returned (logLine (ErrorInListener event e) s'))) s
     = Returned (deliverToAll impl event data callbacks s)"
proof -
  have "(\<lambda>callback. tryCatch (invoke impl event data callback)
           (\<lambda>e s'. Returned (logLine (ErrorInListener event e) s')))
      = (\<lambda>callback a. Returned (deliverTo impl event data callback a))"
    by (intro ext) (rule tryCatch_invoke)
  then show ?thesis
    by (simp only: forEach_deliverTo)
qed

lemma notifyListeners_deliverToAll:
  "notifyListeners impl event data s
     = Returned (deliverToAll impl event data (registered s event) s)"
  by (simp add: notifyListeners_def registered_def forEach_tryCatch_invoke split: option.splits)

lemma calls_append: "calls (t @ t') = calls t @ calls t'"
  by (induction t rule: calls.induct) auto

lemma exhaustionReports_append:
  "exhaustionReports (t @ t') = exhaustionReports t + exhaustionReports t'"
  by (simp add: exhaustionReports_def)

lemma deliverToAll_fields:
  "socket (deliverToAll impl event data callbacks s) = socket s
   \<and> reconnectAttempts (deliverToAll impl event data callbacks s) = reconnectAttempts s
   \<and> maxReconnectAttempts (deliverToAll impl event data callbacks s) = maxReconnectAttempts s
   \<and> reconnectDelay (deliverToAll impl event data callbacks s) = reconnectDelay s
   \<and> listeners (deliverToAll impl event data callbacks s) = listeners s
   \<and> connected (deliverToAll impl event data callbacks s) = connected s
   \<and> url (deliverToAll impl event data callbacks s) = url s"
  by (induction callbacks arbitrary: s) (auto simp: deliverTo_def split: completion.splits)

lemma deliverToAll_calls:
  "calls (effects (deliverToAll impl event data callbacks s))
     = calls (effects s) @ map (Pair event) callbacks"
  by (induction callbacks arbitrary: s) (auto simp: calls_append deliverTo_def split: completion.splits)

lemma deliverToAll_exhaustionReports:
  "exhaustionReports (effects (deliverToAll impl event data callbacks s))
     = exhaustionReports (effects s)"
  by (induction callbacks arbitrary: s)
     (auto simp: exhaustionReports_def deliverTo_def split: completion.splits)

lemma sample_registered: "listeners sampleService CONNECT_ERROR = Some [0, 1, 2]"
  by (simp add: sampleService_def on_def connect_def newSocketService_def Let_def)

lemma sample_fields:
  "world sampleService = 0"
  "socket sampleService \<noteq> None"
  "connected sampleService = False"
  "reconnectAttempts sampleService = 0"
  "maxReconnectAttempts sampleService = 5"
  "calls (effects sampleService) = []"
  "exhaustionReports (effects sampleService) = 0"
  by (simp_all add: sampleService_def on_def connect_def newSocketService_def Let_def
      exhaustionReports_def)

text \<open>
  Claim C7. For every event, payload, state and subscriber callbacks (each free to
  return or to throw), \<^verbatim>\<open>notifyListeners\<close> returns: no exception leaves it. Its
  result is the one described by \<open>deliverToAll\<close>: every callback registered for the
  event is called, in registration order, on the state its predecessor left, and a
  throw of one is logged for that callback and does not stop the next from being
  called. The calls it adds to the trace are exactly the registered callbacks, and it
  leaves the fields of the service as they were.
\<close>

theorem notifyListeners_calls_every_listener:
  "\<exists>s'. notifyListeners impl event data s = Returned s'
     \<and> s' = deliverToAll impl event data (registered s event) s
     \<and> calls (effects s') = calls (effects s) @ map (Pair event) (registered s event)
     \<and> listeners s' = listeners s \<and> socket s' = socket s \<and> connected s' = connected s
     \<and> reconnectAttempts s' = reconnectAttempts s"
  by (simp add: notifyListeners_deliverToAll deliverToAll_calls deliverToAll_fields)

theorem notifyListeners_calls_every_listener_witness:
  "notifyListeners sampleCallbacks CONNECT_ERROR Null sampleService
     = Returned (sampleService\<lparr>effects := effects sampleService @
          [Called CONNECT_ERROR 0 Null, Console (ErrorInListener CONNECT_ERROR ''boom''),
           Called CONNECT_ERROR 1 Null, Called CONNECT_ERROR 2 Null], world := 2\<rparr>)"
  using notifyListeners_calls_every_listener [of sampleCallbacks CONNECT_ERROR Null sampleService]
  by (simp add: registered_def sample_registered sampleCallbacks_def deliverTo_def sample_fields)

subsection \<open>Idempotence of connect\<close>

text \<open>
  Claim C6. In every state in which a socket exists, that is in the connecting and in
  the connected state, \<^verbatim>\<open>connect\<close> returns the state it was given: no socket is
  created (the trace of effects gets no new entry), and the connection state, the
  attempt counter and the registered listeners are unchanged. In every state a second
  \<^verbatim>\<open>connect\<close> after a first changes nothing.
\<close>

theorem connect_is_idempotent:
  "(connectionState s \<noteq> Disconnected
      \<longrightarrow> connect s = s \<and> effects (connect s) = effects s
          \<and> connectionState (connect s) = connectionState s
          \<and> reconnectAttempts (connect s) = reconnectAttempts s
          \<and> listeners (connect s) = listeners s)
   \<and> connect (connect s) = connect s"
  by (auto simp: connectionState_def connect_def Let_def split: option.splits)

theorem connect_is_idempotent_witness:
  "connectionState sampleService = Connecting
   \<and> connect sampleService = sampleService
   \<and> connectionState (sampleService\<lparr>connected := True\<rparr>) = Connected
   \<and> connect (sampleService\<lparr>connected := True\<rparr>) = sampleService\<lparr>connected := True\<rparr>"
proof -
  have a: "connectionState sampleService = Connecting"
    using sample_fields(2,3) by (simp add: connectionState_def split: option.splits)
  have b: "connectionState (sampleService\<lparr>connected := True\<rparr>) = Connected"
    using sample_fields(2) by (simp add: connectionState_def split: option.splits)
  from a b connect_is_idempotent [of sampleService]
    connect_is_idempotent [of "sampleService\<lparr>connected := True\<rparr>"]
  show ?thesis
    by simp
qed

subsection \<open>Connect errors and the attempt counter\<close>

lemma registered_logLine: "registered (logLine l s) event = registered s event"
  by (simp add: registered_def logLine_def)

lemma logLine_fields:
  "socket (logLine l s) = socket s"
  "reconnectAttempts (logLine l s) = reconnectAttempts s"
  "maxReconnectAttempts (logLine l s) = maxReconnectAttempts s"
  "listeners (logLine l s) = listeners s"
  "connected (logLine l s) = connected s"
  by (simp_all add: logLine_def)

lemma concat_replicate_Suc: "concat (replicate (Suc n) xs) = concat (replicate n xs) @ xs"
  by (induction n) auto

lemma onConnectError_eq:
  "onConnectError impl err s =
     Returned
       (let s1 = deliverToAll impl CONNECT_ERROR (Text err) (registered s CONNECT_ERROR)
                   (logLine (ErrorSocketConnection err) s);
            s2 = s1\<lparr>reconnectAttempts := reconnectAttempts s + 1\<rparr>
        in if reconnectAttempts s + 1 > maxReconnectAttempts s
           then disconnect (logLine ErrorMaxReconnectionAttempts s2) else s2)"
  by (simp add: onConnectError_def andThen_def notifyListeners_deliverToAll registered_logLine
      deliverToAll_fields Let_def logLine_fields)

lemma onConnectError_below:
  assumes "reconnectAttempts s < maxReconnectAttempts s"
  shows "\<exists>s'. onConnectError impl err s = Returned s'
     \<and> socket s' = socket s \<and> connected s' = connected s
     \<and> reconnectAttempts s' = reconnectAttempts s + 1
     \<and> maxReconnectAttempts s' = maxReconnectAttempts s
     \<and> listeners s' = listeners s
     \<and> exhaustionReports (effects s') = exhaustionReports (effects s)
     \<and> calls (effects s') = calls (effects s) @ map (Pair CONNECT_ERROR) (registered s CONNECT_ERROR)"
  using assms
  by (simp add: onConnectError_eq Let_def deliverToAll_fields deliverToAll_calls
      deliverToAll_exhaustionReports registered_logLine)
     (simp add: logLine_def exhaustionReports_def calls_append)

lemma onConnectError_at_max:
  assumes "reconnectAttempts s = maxReconnectAttempts s" and "socket s \<noteq> None"
  shows "\<exists>s'. onConnectError impl err s = Returned s'
     \<and> socket s' = None \<and> connected s' = False
     \<and> reconnectAttempts s' = maxReconnectAttempts s + 1
     \<and> listeners s' = listeners s
     \<and> exhaustionReports (effects s') = exhaustionReports (effects s) + 1
     \<and> calls (effects s') = calls (effects s) @ map (Pair CONNECT_ERROR) (registered s CONNECT_ERROR)"
  using assms
  by (simp add: onConnectError_eq Let_def disconnect_def logLine_def deliverToAll_fields
      deliverToAll_calls deliverToAll_exhaustionReports calls_append exhaustionReports_append
      split: option.splits)
     (auto simp: exhaustionReports_def registered_def)

lemma deliver_Nil: "deliver impl [] s = Returned s"
  by (simp add: deliver_def)

lemma deliver_Cons:
  "deliver impl (ev # evs) s =
     (case onSocketEvent impl ev s of Returned s' \<Rightarrow> deliver impl evs s' | Thrown e s' \<Rightarrow> Thrown e s')"
  by (simp add: deliver_def split: completion.splits)

lemma forEach_append:
  "forEach (vs @ ws) f s = (case forEach vs f s of Returned s' \<Rightarrow> forEach ws f s' | Thrown e s' \<Rightarrow> Thrown e s')"
  by (induction vs arbitrary: s) (auto split: completion.splits)

lemma deliver_snoc:
  "deliver impl (evs @ [ev]) s =
     (case deliver impl evs s of Returned s' \<Rightarrow> onSocketEvent impl ev s' | Thrown e s' \<Rightarrow> Thrown e s')"
  by (simp add: deliver_def forEach_append split: completion.splits)

lemma connect_errors_below:
  "reconnectAttempts s + length errs \<le> maxReconnectAttempts s \<Longrightarrow>
   \<exists>s'. deliver impl (map TConnectError errs) s = Returned s'
     \<and> socket s' = socket s \<and> connected s' = connected s
     \<and> reconnectAttempts s' = reconnectAttempts s + length errs
     \<and> maxReconnectAttempts s' = maxReconnectAttempts s
     \<and> listeners s' = listeners s
     \<and> exhaustionReports (effects s') = exhaustionReports (effects s)
     \<and> calls (effects s') = calls (effects s)
          @ concat (replicate (length errs) (map (Pair CONNECT_ERROR) (registered s CONNECT_ERROR)))"
proof (induction errs arbitrary: s)
  case Nil
  show ?case by (simp add: deliver_Nil)
next
  case (Cons err errs)
  then have "reconnectAttempts s < maxReconnectAttempts s"
    by simp
  from onConnectError_below [OF this, of impl err]
  obtain s1 where s1: "onConnectError impl err s = Returned s1"
      "socket s1 = socket s" "connected s1 = connected s"
      "reconnectAttempts s1 = reconnectAttempts s + 1"
      "maxReconnectAttempts s1 = maxReconnectAttempts s"
      "listeners s1 = listeners s"
      "exhaustionReports (effects s1) = exhaustionReports (effects s)"
      "calls (effects s1) = calls (effects s) @ map (Pair CONNECT_ERROR) (registered s CONNECT_ERROR)"
    by blast
  have reg: "registered s1 CONNECT_ERROR = registered s CONNECT_ERROR"
    using s1(6) by (simp add: registered_def)
  have "reconnectAttempts s1 + length errs \<le> maxReconnectAttempts s1"
    using Cons.prems s1(4,5) by simp
  from Cons.IH [OF this]
  obtain s' where s': "deliver impl (map TConnectError errs) s1 = Returned s'"
      "socket s' = socket s1" "connected s' = connected s1"
      "reconnectAttempts s' = reconnectAttempts s1 + length errs"
      "maxReconnectAttempts s' = maxReconnectAttempts s1"
      "listeners s' = listeners s1"
      "exhaustionReports (effects s') = exhaustionReports (effects s1)"
      "calls (effects s') = calls (effects s1)
          @ concat (replicate (length errs) (map (Pair CONNECT_ERROR) (registered s1 CONNECT_ERROR)))"
    by blast
  have "deliver impl (map TConnectError (err # errs)) s = Returned s'"
    using s1(1) s'(1) by (simp add: deliver_Cons)
  with s1 s' reg show ?case
    by simp
qed

lemma connect_errors_exceed:
  assumes "socket s \<noteq> None" and "reconnectAttempts s = 0"
    and "length errs = maxReconnectAttempts s + 1"
  shows "\<exists>s'. deliver impl (map TConnectError errs) s = Returned s'
     \<and> socket s' = None \<and> connected s' = False
     \<and> exhaustionReports (effects s') = exhaustionReports (effects s) + 1
     \<and> calls (effects s') = calls (effects s)
          @ concat (replicate (length errs) (map (Pair CONNECT_ERROR) (registered s CONNECT_ERROR)))"
proof -
  from assms(3) obtain init err where errs: "errs = init @ [err]" "length init = maxReconnectAttempts s"
    by (cases errs rule: rev_cases) auto
  have "reconnectAttempts s + length init \<le> maxReconnectAttempts s"
    using assms(2) errs(2) by simp
  from connect_errors_below [OF this, of impl]
  obtain s1 where s1: "deliver impl (map TConnectError init) s = Returned s1"
      "socket s1 = socket s" "connected s1 = connected s"
      "reconnectAttempts s1 = reconnectAttempts s + length init"
      "maxReconnectAttempts s1 = maxReconnectAttempts s"
      "listeners s1 = listeners s"
      "exhaustionReports (effects s1) = exhaustionReports (effects s)"
      "calls (effects s1) = calls (effects s)
          @ concat (replicate (length init) (map (Pair CONNECT_ERROR) (registered s CONNECT_ERROR)))"
    by blast
  have reg: "registered s1 CONNECT_ERROR = registered s CONNECT_ERROR"
    using s1(6) by (simp add: registered_def)
  have "reconnectAttempts s1 = maxReconnectAttempts s1" "socket s1 \<noteq> None"
    using s1 assms errs by simp_all
  from onConnectError_at_max [OF this, of impl err]
  obtain s' where s': "onConnectError impl err s1 = Returned s'"
      "socket s' = None" "connected s' = False"
      "exhaustionReports (effects s') = exhaustionReports (effects s1) + 1"
      "calls (effects s') = calls (effects s1) @ map (Pair CONNECT_ERROR) (registered s1 CONNECT_ERROR)"
    by blast
  have "deliver impl (map TConnectError errs) s = Returned s'"
    using s1(1) s'(1) errs(1) by (simp add: deliver_snoc)
  moreover have "concat (replicate (length errs) (map (Pair CONNECT_ERROR) (registered s CONNECT_ERROR)))
      = concat (replicate (length init) (map (Pair CONNECT_ERROR) (registered s CONNECT_ERROR)))
        @ map (Pair CONNECT_ERROR) (registered s CONNECT_ERROR)"
    using errs(1) by (simp add: concat_replicate_Suc del: replicate_Suc)
  ultimately show ?thesis
    using s1 s' reg by simp
qed


text \<open>
  Claim C5, as stated, fails. The sample service has just connected (counter 0,
  maximum 5) and has three subscribers for connect-error. After five connect errors in
  a row it is not disconnected, the exhaustion of the attempts has not been reported,
  and what the subscribers have received is five ordinary connect-error calls each.
\<close>

theorem five_connect_errors_do_not_disconnect:
  "connectionState (finalState (deliver sampleCallbacks
       (map TConnectError [''e1'', ''e2'', ''e3'', ''e4'', ''e5'']) sampleService)) \<noteq> Disconnected
   \<and> exhaustionReports (effects (finalState (deliver sampleCallbacks
       (map TConnectError [''e1'', ''e2'', ''e3'', ''e4'', ''e5'']) sampleService))) \<noteq> 1
   \<and> calls (effects (finalState (deliver sampleCallbacks
       (map TConnectError [''e1'', ''e2'', ''e3'', ''e4'', ''e5'']) sampleService)))
       = concat (replicate 5 [(CONNECT_ERROR, 0), (CONNECT_ERROR, 1), (CONNECT_ERROR, 2)])"
proof -
  have "reconnectAttempts sampleService + length [''e1'', ''e2'', ''e3'', ''e4'', ''e5'']
      \<le> maxReconnectAttempts sampleService"
    by (simp add: sample_fields)
  from connect_errors_below [OF this, of sampleCallbacks]
  obtain s' where s':
    "deliver sampleCallbacks (map TConnectError [''e1'', ''e2'', ''e3'', ''e4'', ''e5'']) sampleService
       = Returned s'"
    "socket s' = socket sampleService"
    "exhaustionReports (effects s') = exhaustionReports (effects sampleService)"
    "calls (effects s') = calls (effects sampleService)
       @ concat (replicate (length [''e1'', ''e2'', ''e3'', ''e4'', ''e5''])
           (map (Pair CONNECT_ERROR) (registered sampleService CONNECT_ERROR)))"
    by blast
  have "connectionState s' \<noteq> Disconnected"
    using s'(2) sample_fields(2) by (simp add: connectionState_def split: option.splits)
  moreover have "exhaustionReports (effects s') \<noteq> 1"
    using s'(3) by (simp add: sample_fields)
  moreover have "calls (effects s')
      = concat (replicate 5 [(CONNECT_ERROR, 0), (CONNECT_ERROR, 1), (CONNECT_ERROR, 2)])"
    using s'(4) by (simp add: sample_fields registered_def sample_registered eval_nat_numeral)
  ultimately show ?thesis
    using s'(1) by simp
qed

text \<open>
  Claim C5, amended. With the maximum configured as 5 and the counter at 0, a service
  that has a socket keeps its connection state through up to five connect errors in a
  row, the counter counting them, and the exhaustion is not reported. The sixth connect
  error in a row, the first that takes the counter above the maximum, forces the
  disconnected state and the exhaustion is reported once, on the console. No separate
  exhaustion event goes to the subscribers: each connect error, the sixth included, is
  delivered to every connect-error subscriber as an ordinary connect-error call, six
  calls per subscriber in all.
\<close>

theorem connect_errors_exhaust_after_max:
  "socket s \<noteq> None \<and> reconnectAttempts s = 0 \<and> maxReconnectAttempts s = 5 \<longrightarrow>
     (length errs \<le> 5 \<longrightarrow>
        (\<exists>s'. deliver impl (map TConnectError errs) s = Returned s'
           \<and> connectionState s' = connectionState s
           \<and> reconnectAttempts s' = length errs
           \<and> exhaustionReports (effects s') = exhaustionReports (effects s)
           \<and> calls (effects s') = calls (effects s)
                @ concat (replicate (length errs)
                    (map (Pair CONNECT_ERROR) (registered s CONNECT_ERROR)))))
     \<and> (length errs = 6 \<longrightarrow>
        (\<exists>s'. deliver impl (map TConnectError errs) s = Returned s'
           \<and> connectionState s' = Disconnected
           \<and> exhaustionReports (effects s') = exhaustionReports (effects s) + 1
           \<and> calls (effects s') = calls (effects s)
                @ concat (replicate 6 (map (Pair CONNECT_ERROR) (registered s CONNECT_ERROR)))))"
proof (intro impI conjI)
  assume a: "socket s \<noteq> None \<and> reconnectAttempts s = 0 \<and> maxReconnectAttempts s = 5"
    and len: "length errs \<le> 5"
  then have "reconnectAttempts s + length errs \<le> maxReconnectAttempts s"
    by simp
  from connect_errors_below [OF this, of impl]
  obtain s' where s': "deliver impl (map TConnectError errs) s = Returned s'"
      "socket s' = socket s" "connected s' = connected s"
      "reconnectAttempts s' = reconnectAttempts s + length errs"
      "exhaustionReports (effects s') = exhaustionReports (effects s)"
      "calls (effects s') = calls (effects s)
          @ concat (replicate (length errs) (map (Pair CONNECT_ERROR) (registered s CONNECT_ERROR)))"
    by blast
  have "connectionState s' = connectionState s"
    using s'(2,3) by (simp add: connectionState_def)
  moreover have "reconnectAttempts s' = length errs"
    using s'(4) a by simp
  ultimately show "\<exists>s'. deliver impl (map TConnectError errs) s = Returned s'
           \<and> connectionState s' = connectionState s
           \<and> reconnectAttempts s' = length errs
           \<and> exhaustionReports (effects s') = exhaustionReports (effects s)
           \<and> calls (effects s') = calls (effects s)
                @ concat (replicate (length errs)
                    (map (Pair CONNECT_ERROR) (registered s CONNECT_ERROR)))"
    using s'(1,5,6) by blast
next
  assume a: "socket s \<noteq> None \<and> reconnectAttempts s = 0 \<and> maxReconnectAttempts s = 5"
    and len: "length errs = 6"
  then have b: "socket s \<noteq> None" "reconnectAttempts s = 0"
      "length errs = maxReconnectAttempts s + 1"
    by simp_all
  from connect_errors_exceed [OF b, of impl]
  obtain s' where s': "deliver impl (map TConnectError errs) s = Returned s'"
      "socket s' = None"
      "exhaustionReports (effects s') = exhaustionReports (effects s) + 1"
      "calls (effects s') = calls (effects s)
          @ concat (replicate (length errs) (map (Pair CONNECT_ERROR) (registered s CONNECT_ERROR)))"
    by blast
  have "connectionState s' = Disconnected"
    using s'(2) by (simp add: connectionState_def)
  moreover have "calls (effects s') = calls (effects s)
                @ concat (replicate 6 (map (Pair CONNECT_ERROR) (registered s CONNECT_ERROR)))"
    using s'(4) len by simp
  ultimately show "\<exists>s'. deliver impl (map TConnectError errs) s = Returned s'
           \<and> connectionState s' = Disconnected
           \<and> exhaustionReports (effects s') = exhaustionReports (effects s) + 1
           \<and> calls (effects s') = calls (effects s)
                @ concat (replicate 6 (map (Pair CONNECT_ERROR) (registered s CONNECT_ERROR)))"
    using s'(1,3) by blast
qed

theorem connect_errors_exhaust_after_max_witness:
  "connectionState (finalState (deliver sampleCallbacks
       (map TConnectError [''e1'', ''e2'', ''e3'', ''e4'', ''e5'']) sampleService)) = Connecting
   \<and> connectionState (finalState (deliver sampleCallbacks
       (map TConnectError [''e1'', ''e2'', ''e3'', ''e4'', ''e5'', ''e6'']) sampleService)) = Disconnected
   \<and> exhaustionReports (effects (finalState (deliver sampleCallbacks
       (map TConnectError [''e1'', ''e2'', ''e3'', ''e4'', ''e5'', ''e6'']) sampleService))) = 1
   \<and> length (calls (effects (finalState (deliver sampleCallbacks
       (map TConnectError [''e1'', ''e2'', ''e3'', ''e4'', ''e5'', ''e6'']) sampleService)))) = 18"
proof -
  have "\<exists>s'. deliver sampleCallbacks
        (map TConnectError [''e1'', ''e2'', ''e3'', ''e4'', ''e5'']) sampleService = Returned s'
      \<and> connectionState s' = connectionState sampleService"
    using connect_errors_exhaust_after_max
      [of sampleService "[''e1'', ''e2'', ''e3'', ''e4'', ''e5'']" sampleCallbacks]
    by (simp add: sample_fields) blast
  then obtain s5 where s5:
    "deliver sampleCallbacks (map TConnectError [''e1'', ''e2'', ''e3'', ''e4'', ''e5'']) sampleService
       = Returned s5"
    "connectionState s5 = connectionState sampleService"
    by blast
  have "\<exists>s'. deliver sampleCallbacks
        (map TConnectError [''e1'', ''e2'', ''e3'', ''e4'', ''e5'', ''e6'']) sampleService = Returned s'
      \<and> connectionState s' = Disconnected
      \<and> exhaustionReports (effects s') = exhaustionReports (effects sampleService) + 1
      \<and> calls (effects s') = calls (effects sampleService)
           @ concat (replicate 6 (map (Pair CONNECT_ERROR) (registered sampleService CONNECT_ERROR)))"
    using connect_errors_exhaust_after_max
      [of sampleService "[''e1'', ''e2'', ''e3'', ''e4'', ''e5'', ''e6'']" sampleCallbacks]
    by (simp add: sample_fields)
  then obtain s6 where s6:
    "deliver sampleCallbacks
       (map TConnectError [''e1'', ''e2'', ''e3'', ''e4'', ''e5'', ''e6'']) sampleService = Returned s6"
    "connectionState s6 = Disconnected"
    "exhaustionReports (effects s6) = exhaustionReports (effects sampleService) + 1"
    "calls (effects s6) = calls (effects sampleService)
       @ concat (replicate 6 (map (Pair CONNECT_ERROR) (registered sampleService CONNECT_ERROR)))"
    by blast
  have "connectionState sampleService = Connecting"
    using sample_fields(2,3) by (simp add: connectionState_def split: option.splits)
  moreover have "length (calls (effects s6)) = 18"
    using s6(4) by (simp add: sample_fields registered_def sample_registered eval_nat_numeral)
  ultimately show ?thesis
    using s5 s6(1,2,3) by (simp add: sample_fields)
qed

end
